theory Spec2Isabelle
  imports Main "HOL-Library.Word"
begin

section \<open>Python values and exceptions shared by both modules\<close>

text \<open>
  The repository is two small Python modules around library calls:
  \<^verbatim>\<open>model/inference.py\<close> (the request handler) and
  \<^verbatim>\<open>utils/prepare_nemo_model.py\<close> (the artifact packager). The functions of the
  repository are embedded statement by statement. The libraries they call (json, base64,
  soundfile, tarfile, gzip, the NeMo download) are not part of the repository: what a library
  computes from bytes is taken as a parameter, so every theorem holds for any behaviour of
  the codec, and only the calling conventions that decide a branch of the source (which
  exception a call raises, which handler catches it) are written out.

  An exception is a value: a function that may raise returns a sum, with \<open>Inl\<close> the
  exception that leaves the function.
\<close>

type_synonym byte = "8 word"
type_synonym bytes = "byte list"

text \<open>The messages of the \<^verbatim>\<open>ValueError\<close>s raised by \<^verbatim>\<open>input_fn\<close>, one per raise statement.\<close>

datatype verr =
    UnsupportedContentType
  | InvalidJSON
  | MissingField
  | InvalidField
  | InvalidBase64
  | UndecodableWav
  | SampleRateMismatch nat nat
  | NotMono
  | EmptyAudio

text \<open>
  The exceptions raised by the interpreter and the libraries; \<open>OtherError\<close> stands for any
  exception class not named here.
\<close>

datatype pyexn =
    TypeError
  | KeyError
  | JSONDecodeError
  | ImportError
  | FileNotFoundError
  | FileExistsError
  | NotADirectoryError
  | IsADirectoryError
  | PermissionError
  | ReadError
  | EOFError
  | OtherError nat

text \<open>
  What leaves a function of the repository: an exception of the interpreter or a library
  that nothing caught (\<open>Lib\<close>), or one that the repository raises itself.
  \<open>MissingNemo\<close> is the \<^verbatim>\<open>FileNotFoundError("Missing or empty .nemo file ...")\<close> of
  \<^verbatim>\<open>prepare_nemo_artifact\<close>; \<open>DownloadFailed e\<close>, \<open>TarCreateFailed e\<close> and
  \<open>VerificationFailed\<close> are its three \<^verbatim>\<open>RuntimeError\<close>s, the first two raised
  \<^verbatim>\<open>from e\<close>, the exception caught.
\<close>

datatype exn =
    Lib pyexn
  | ValueError verr
  | MissingNemo
  | DownloadFailed pyexn
  | TarCreateFailed pyexn
  | VerificationFailed

section \<open>The inference handler\<close>

subsection \<open>JSON values and the two Python operations the handler applies to them\<close>

datatype json =
    JNull
  | JBool bool
  | JNum int
  | JStr string
  | JArr "json list"
  | JObj "(string \<times> json) list"

text \<open>
  \<open>JObj kvs\<close> is the \<^verbatim>\<open>dict\<close> that \<^verbatim>\<open>json.loads\<close> builds, as its list of items;
  \<open>map_of\<close> looks a key up. \<^verbatim>\<open>key in payload\<close> is key membership on a dict, element
  membership on a list, substring search on a str, and a \<^verbatim>\<open>TypeError\<close> on None, a bool
  or a number. \<^verbatim>\<open>payload[key]\<close> with a str key is defined on a dict only.
\<close>

fun startswith :: "string \<Rightarrow> string \<Rightarrow> bool" where
  "startswith s [] = True"
| "startswith [] (c # k) = False"
| "startswith (d # s) (c # k) = (d = c \<and> startswith s k)"

fun str_contains :: "string \<Rightarrow> string \<Rightarrow> bool" where
  "str_contains [] k = (k = [])"
| "str_contains (d # s) k = (startswith (d # s) k \<or> str_contains s k)"

fun py_in :: "string \<Rightarrow> json \<Rightarrow> pyexn + bool" where
  "py_in k (JObj kvs) = Inr (map_of kvs k \<noteq> None)"
| "py_in k (JArr xs) = Inr (JStr k \<in> set xs)"
| "py_in k (JStr s) = Inr (str_contains s k)"
| "py_in k JNull = Inl TypeError"
| "py_in k (JBool b) = Inl TypeError"
| "py_in k (JNum n) = Inl TypeError"

fun py_getitem :: "json \<Rightarrow> string \<Rightarrow> pyexn + json" where
  "py_getitem (JObj kvs) k = (case map_of kvs k of None \<Rightarrow> Inl KeyError | Some v \<Rightarrow> Inr v)"
| "py_getitem (JArr xs) k = Inl TypeError"
| "py_getitem (JStr s) k = Inl TypeError"
| "py_getitem JNull k = Inl TypeError"
| "py_getitem (JBool b) k = Inl TypeError"
| "py_getitem (JNum n) k = Inl TypeError"

subsection \<open>The decoded audio array\<close>

text \<open>
  \<^verbatim>\<open>sf.read(..., always_2d=True)\<close> returns an array of shape \<open>(T, C)\<close> and the sample
  rate. The array is kept as numpy stores it: the \<open>T * C\<close> samples frame after frame.
  \<open>shape0\<close> is \<^verbatim>\<open>audio.shape[0]\<close>, \<open>column0\<close> is \<^verbatim>\<open>audio[:, 0]\<close>. The sample type
  is a type variable: the handler never computes with a sample.
\<close>

record 's audio =
  samplerate :: nat
  channels :: nat
  samples :: "'s list"

definition shape0 :: "'s audio \<Rightarrow> nat" where
  "shape0 a = (if channels a = 0 then 0 else length (samples a) div channels a)"

definition column0 :: "'s audio \<Rightarrow> 's list" where
  "column0 a = map (\<lambda>i. samples a ! (i * channels a)) [0..<shape0 a]"

subsection \<open>The codecs, as parameters\<close>

text \<open>
  \<open>json_loads\<close> is \<^verbatim>\<open>json.loads\<close> (the handler catches \<^verbatim>\<open>JSONDecodeError\<close> only, so
  the exception is kept); \<open>b64decode\<close> is \<^verbatim>\<open>base64.b64decode(s, validate=True)\<close> and
  \<open>sf_read\<close> is \<^verbatim>\<open>sf.read(io.BytesIO(b), dtype="float32", always_2d=True)\<close>, both under
  \<^verbatim>\<open>except Exception\<close>, so \<open>None\<close> stands for any exception;
  \<open>json_dumps\<close> is \<^verbatim>\<open>json.dumps(obj, ensure_ascii=False)\<close>.
\<close>

record 's codecs =
  json_loads :: "string \<Rightarrow> pyexn + json"
  b64decode :: "string \<Rightarrow> bytes option"
  sf_read :: "bytes \<Rightarrow> 's audio option"
  json_dumps :: "json \<Rightarrow> string"

definition SR_REQUIRED :: nat where
  "SR_REQUIRED = 16000"

subsection \<open>\<^verbatim>\<open>input_fn\<close>\<close>

definition check_audio :: "'s audio \<Rightarrow> exn + 's list" where
  "check_audio a =
     (if samplerate a \<noteq> SR_REQUIRED
      then Inl (ValueError (SampleRateMismatch SR_REQUIRED (samplerate a)))
      else if channels a \<noteq> 1 then Inl (ValueError NotMono)
      else if length (column0 a) = 0 then Inl (ValueError EmptyAudio)
      else Inr (column0 a))"

definition decode_field :: "'s codecs \<Rightarrow> json \<Rightarrow> exn + 's list" where
  "decode_field L b64 =
     (case b64 of
        JStr s \<Rightarrow>
          (if s = [] then Inl (ValueError InvalidField)
           else case b64decode L s of
                  None \<Rightarrow> Inl (ValueError InvalidBase64)
                | Some wav_bytes \<Rightarrow>
                    (case sf_read L wav_bytes of
                       None \<Rightarrow> Inl (ValueError UndecodableWav)
                     | Some a \<Rightarrow> check_audio a))
      | _ \<Rightarrow> Inl (ValueError InvalidField))"

definition input_fn :: "'s codecs \<Rightarrow> string \<Rightarrow> string \<Rightarrow> exn + 's list" where
  "input_fn L request_body content_type =
     (if content_type \<noteq> ''application/json'' then Inl (ValueError UnsupportedContentType)
      else case json_loads L request_body of
             Inl e \<Rightarrow> (if e = JSONDecodeError then Inl (ValueError InvalidJSON) else Inl (Lib e))
           | Inr payload \<Rightarrow>
               (case py_in ''audio_b64'' payload of
                  Inl e \<Rightarrow> Inl (Lib e)
                | Inr present \<Rightarrow>
                    (if \<not> present then Inl (ValueError MissingField)
                     else (case py_getitem payload ''audio_b64'' of
                             Inl e \<Rightarrow> Inl (Lib e)
                           | Inr b64 \<Rightarrow> decode_field L b64))))"

subsection \<open>\<^verbatim>\<open>output_fn\<close>\<close>

text \<open>
  The result is the returned pair and the records the call sends to the logger; the only
  one is the warning for an accept type other than JSON.
\<close>

datatype log_record = Warning string

definition output_fn :: "'s codecs \<Rightarrow> string \<Rightarrow> string \<Rightarrow> (string \<times> string) \<times> log_record list" where
  "output_fn L pred accept =
     (let logged = (if accept \<noteq> ''application/json''
                    then [Warning ''Non-standard 'accept' requested; returning application/json anyway.'']
                    else []);
          body = json_dumps L (JObj [(''text'', JStr pred)])
      in ((body, ''application/json''), logged))"

section \<open>The artifact packager\<close>

subsection \<open>Paths, files and the host\<close>

text \<open>
  A path is the list of its components, so \<^verbatim>\<open>"artifacts/model.tar.gz"\<close> is
  \<open>[''artifacts'', ''model.tar.gz'']\<close>; \<^verbatim>\<open>os.path.dirname\<close> drops the last component and
  the empty list is the empty string. A file system maps paths to nodes. A node carries
  what \<^verbatim>\<open>os.lstat\<close> reports of it (\<open>inode\<close>); a directory also its reported size, a
  regular file whether this process may open it for reading, and its bytes.
\<close>

type_synonym path = "string list"

record inode =
  st_mode :: nat
  st_uid :: nat
  st_gid :: nat
  st_mtime :: nat

datatype node = Dir inode nat | File inode bool bytes

type_synonym fs = "path \<rightharpoonup> node"

definition dirname :: "path \<Rightarrow> path" where
  "dirname p = butlast p"

definition path_exists :: "fs \<Rightarrow> path \<Rightarrow> bool" where
  "path_exists fs p = (p \<noteq> [] \<and> fs p \<noteq> None)"

definition getsize :: "fs \<Rightarrow> path \<Rightarrow> pyexn + nat" where
  "getsize fs p =
     (if p = [] then Inl FileNotFoundError
      else case fs p of
             None \<Rightarrow> Inl FileNotFoundError
           | Some (Dir i n) \<Rightarrow> Inr n
           | Some (File i r b) \<Rightarrow> Inr (length b))"

text \<open>
  The host: the clock (\<^verbatim>\<open>time.time()\<close> in whole seconds, a 32-bit count as the gzip
  header stores it), the user and group databases, the inode that a file or directory
  created by this process gets, and the NeMo collaborator. \<open>nemo_import\<close> is the exception
  of \<^verbatim>\<open>import nemo.collections.asr\<close>, if any; \<open>fetch\<close> is
  \<^verbatim>\<open>from_pretrained(model_name)\<close> followed by \<^verbatim>\<open>save_to(path)\<close>: it returns the
  exception raised, if any, and the file system it leaves. \<open>walk\<close> gives the members that
  \<^verbatim>\<open>tar.add\<close> writes for the entries below a directory, before the filter is applied.
\<close>

record env =
  clock :: "32 word"
  pw_name :: "nat \<Rightarrow> string"
  gr_name :: "nat \<Rightarrow> string"
  new_inode :: inode
  nemo_import :: "pyexn option"
  fetch :: "string \<Rightarrow> path \<Rightarrow> fs \<Rightarrow> pyexn option \<times> fs"
  walk :: "fs \<Rightarrow> path \<Rightarrow> string \<Rightarrow> pyexn option \<times> (inode \<times> string \<times> nat \<times> bool \<times> bytes) list"

subsection \<open>\<^verbatim>\<open>os.makedirs(d, exist_ok=True)\<close>\<close>

text \<open>
  \<^verbatim>\<open>makedirs\<close> creates the missing ancestors from the top down. A component that exists
  as a regular file stops it: \<^verbatim>\<open>NotADirectoryError\<close> for an ancestor,
  \<^verbatim>\<open>FileExistsError\<close> for the directory itself. The empty path raises
  \<^verbatim>\<open>FileNotFoundError\<close>. The directories created before the exception stay.
\<close>

fun mkdir_chain :: "env \<Rightarrow> fs \<Rightarrow> path \<Rightarrow> nat \<Rightarrow> nat \<Rightarrow> pyexn option \<times> fs" where
  "mkdir_chain E fs d k 0 = (None, fs)"
| "mkdir_chain E fs d k (Suc n) =
     (case fs (take k d) of
        None \<Rightarrow> mkdir_chain E (fs(take k d \<mapsto> Dir (new_inode E) 0)) d (Suc k) n
      | Some (Dir i sz) \<Rightarrow> mkdir_chain E fs d (Suc k) n
      | Some (File i r b) \<Rightarrow>
          (if n = 0 then (Some FileExistsError, fs) else (Some NotADirectoryError, fs)))"

definition makedirs :: "env \<Rightarrow> fs \<Rightarrow> path \<Rightarrow> pyexn option \<times> fs" where
  "makedirs E fs d =
     (if d = [] then (Some FileNotFoundError, fs) else mkdir_chain E fs d 1 (length d))"

subsection \<open>Tar members and the tar library\<close>

text \<open>
  The fields of \<^verbatim>\<open>tarfile.TarInfo\<close> that \<^verbatim>\<open>gettarinfo\<close> fills from the inode and that
  the repository reads or writes, under the prefix \<open>ti_\<close>.
\<close>

datatype tartype =
    REGTYPE | AREGTYPE | CONTTYPE | DIRTYPE | LNKTYPE | SYMTYPE | CHRTYPE | BLKTYPE | FIFOTYPE

record tarinfo =
  ti_name :: string
  ti_size :: nat
  ti_mtime :: nat
  ti_mode :: nat
  ti_uid :: nat
  ti_gid :: nat
  ti_uname :: string
  ti_gname :: string
  ti_type :: tartype

definition isreg :: "tarinfo \<Rightarrow> bool" where
  "isreg t = (ti_type t = REGTYPE \<or> ti_type t = AREGTYPE \<or> ti_type t = CONTTYPE)"

definition isfile :: "tarinfo \<Rightarrow> bool" where
  "isfile t = isreg t"

text \<open>
  What the tar and gzip codecs compute from bytes is a parameter.
  \<open>tl_is_tarfile b\<close> is the outcome of \<^verbatim>\<open>tarfile.is_tarfile\<close> on a readable regular file
  of bytes \<open>b\<close>: \<^verbatim>\<open>is_tarfile\<close> turns a \<^verbatim>\<open>TarError\<close> into \<^verbatim>\<open>False\<close> and lets every other
  exception through, so the outcome may be an exception. \<open>tl_members_gz b\<close> is the outcome
  of \<^verbatim>\<open>tarfile.open(path, "r:gz")\<close> followed by the loading of all members, as
  \<^verbatim>\<open>getnames\<close> does: the members in archive order, or the exception raised.
  \<open>tl_gz_stream ms finished\<close> is the compressed stream and gzip trailer written after the
  gzip header for the members \<open>ms\<close>; \<open>finished\<close> tells whether the archive was closed
  normally, with its end-of-archive blocks, or closed by the \<^verbatim>\<open>with\<close> statement on an
  exception, without them.
\<close>

record tarlib =
  tl_is_tarfile :: "bytes \<Rightarrow> pyexn + bool"
  tl_members_gz :: "bytes \<Rightarrow> pyexn + tarinfo list"
  tl_gz_stream :: "(tarinfo \<times> bytes) list \<Rightarrow> bool \<Rightarrow> bytes"

definition is_tarfile :: "tarlib \<Rightarrow> fs \<Rightarrow> path \<Rightarrow> pyexn + bool" where
  "is_tarfile lib fs p =
     (if p = [] then Inl FileNotFoundError
      else case fs p of
             None \<Rightarrow> Inl FileNotFoundError
           | Some (Dir i n) \<Rightarrow> Inl IsADirectoryError
           | Some (File i r b) \<Rightarrow> (if r then tl_is_tarfile lib b else Inl PermissionError))"

definition open_gz_members :: "tarlib \<Rightarrow> fs \<Rightarrow> path \<Rightarrow> pyexn + tarinfo list" where
  "open_gz_members lib fs p =
     (if p = [] then Inl FileNotFoundError
      else case fs p of
             None \<Rightarrow> Inl FileNotFoundError
           | Some (Dir i n) \<Rightarrow> Inl IsADirectoryError
           | Some (File i r b) \<Rightarrow> (if r then tl_members_gz lib b else Inl PermissionError))"

definition getnames :: "tarinfo list \<Rightarrow> string list" where
  "getnames ms = map ti_name ms"

text \<open>\<^verbatim>\<open>getmember\<close> returns the last member of that name, and raises \<^verbatim>\<open>KeyError\<close> if none.\<close>

definition getmember :: "tarinfo list \<Rightarrow> string \<Rightarrow> pyexn + tarinfo" where
  "getmember ms n =
     (case find (\<lambda>m. ti_name m = n) (rev ms) of None \<Rightarrow> Inl KeyError | Some m \<Rightarrow> Inr m)"

subsection \<open>\<^verbatim>\<open>_tar_has_model_nemo\<close>\<close>

text \<open>
  The first two tests stand before the \<^verbatim>\<open>try\<close> statement; the rest is inside it, under
  \<^verbatim>\<open>except Exception: return False\<close>.
\<close>

definition tar_has_model_nemo :: "tarlib \<Rightarrow> fs \<Rightarrow> path \<Rightarrow> exn + bool" where
  "tar_has_model_nemo lib fs p =
     (if \<not> path_exists fs p then Inr False
      else case is_tarfile lib fs p of
             Inl e \<Rightarrow> Inl (Lib e)
           | Inr ok \<Rightarrow>
               (if \<not> ok then Inr False
                else (case open_gz_members lib fs p of
                        Inl e \<Rightarrow> Inr False
                      | Inr ms \<Rightarrow>
                          (if ''model.nemo'' \<notin> set (getnames ms) then Inr False
                           else (case getmember ms ''model.nemo'' of
                                   Inl e \<Rightarrow> Inr False
                                 | Inr info \<Rightarrow>
                                     (if \<not> isreg info \<or> ti_size info \<le> 0 then Inr False
                                      else Inr True))))))"

subsection \<open>\<^verbatim>\<open>_deterministic_filter\<close>\<close>

definition deterministic_filter :: "tarinfo \<Rightarrow> tarinfo" where
  "deterministic_filter t =
     t\<lparr>ti_uid := 0, ti_gid := 0, ti_uname := [], ti_gname := [],
       ti_mode := (if isfile t then 420 else 493), ti_mtime := 0\<rparr>"

text \<open>The two modes are \<^verbatim>\<open>0o644\<close> = 420 and \<^verbatim>\<open>0o755\<close> = 493.\<close>

subsection \<open>Writing the archive\<close>

definition gettarinfo :: "env \<Rightarrow> inode \<Rightarrow> string \<Rightarrow> nat \<Rightarrow> tartype \<Rightarrow> tarinfo" where
  "gettarinfo E i arcname sz ty =
     \<lparr>ti_name = arcname, ti_size = sz, ti_mtime = st_mtime i, ti_mode = st_mode i,
      ti_uid = st_uid i, ti_gid = st_gid i,
      ti_uname = pw_name E (st_uid i), ti_gname = gr_name E (st_gid i), ti_type = ty\<rparr>"

text \<open>
  \<^verbatim>\<open>tar.add(name, arcname, filter)\<close>, as the exception raised (if any) and the members
  written. The archive itself is skipped. A regular file is read after its member is
  built, so an unreadable file raises with nothing written. For a directory the entry of
  the directory is written, then the entries below it, each through the filter.
\<close>

definition tar_add ::
  "env \<Rightarrow> fs \<Rightarrow> path \<Rightarrow> path \<Rightarrow> string \<Rightarrow> (tarinfo \<Rightarrow> tarinfo) \<Rightarrow> pyexn option \<times> (tarinfo \<times> bytes) list"
where
  "tar_add E fs archive name arcname flt =
     (if name = archive then (None, [])
      else case fs name of
             None \<Rightarrow> (Some FileNotFoundError, [])
           | Some (File i r b) \<Rightarrow>
               (if r then (None, [(flt (gettarinfo E i arcname (length b) REGTYPE), b)])
                else (Some PermissionError, []))
           | Some (Dir i n) \<Rightarrow>
               (case walk E fs name arcname of
                  (exc, below) \<Rightarrow>
                    (exc, (flt (gettarinfo E i arcname 0 DIRTYPE), [])
                          # map (\<lambda>(j, nm, sz, reg, b).
                                   (flt (gettarinfo E j nm sz (if reg then REGTYPE else DIRTYPE)), b))
                                below)))"

text \<open>
  The gzip header that \<^verbatim>\<open>GzipFile\<close> writes when \<^verbatim>\<open>tarfile.open(out_tar, "w:gz")\<close>
  creates it: magic, method 8, the \<^verbatim>\<open>FNAME\<close> flag, the modification time, which
  \<^verbatim>\<open>GzipFile\<close> takes from \<^verbatim>\<open>time.time()\<close> when the caller passes none (and
  \<^verbatim>\<open>tarfile.open\<close> passes none), little-endian on four bytes, the flag 2 of compression
  level 9, the operating-system byte 255, and the base name of the archive without a final
  \<^verbatim>\<open>.gz\<close>, zero-terminated.
\<close>

definition write32u :: "32 word \<Rightarrow> bytes" where
  "write32u w = [ucast w, ucast (drop_bit 8 w), ucast (drop_bit 16 w), ucast (drop_bit 24 w)]"

definition gz_fname :: "path \<Rightarrow> string" where
  "gz_fname p =
     (let b = last p
      in if 3 \<le> length b \<and> drop (length b - 3) b = ''.gz'' then take (length b - 3) b else b)"

definition gzip_header :: "32 word \<Rightarrow> string \<Rightarrow> bytes" where
  "gzip_header mtime fname =
     [31, 139, 8, (if fname \<noteq> [] then 8 else 0)] @ write32u mtime @ [2, 255]
     @ (if fname \<noteq> [] then map of_char fname @ [0] else [])"

text \<open>
  Opening the destination for writing creates it, or empties it when it is a regular file.
\<close>

definition open_w :: "env \<Rightarrow> fs \<Rightarrow> path \<Rightarrow> pyexn + fs" where
  "open_w E fs p =
     (if p = [] then Inl FileNotFoundError
      else case fs p of
             Some (Dir i n) \<Rightarrow> Inl IsADirectoryError
           | Some (File i r b) \<Rightarrow> Inr (fs(p \<mapsto> File i r []))
           | None \<Rightarrow>
               (if dirname p = [] then Inr (fs(p \<mapsto> File (new_inode E) True []))
                else case fs (dirname p) of
                       None \<Rightarrow> Inl FileNotFoundError
                     | Some (File i r b) \<Rightarrow> Inl NotADirectoryError
                     | Some (Dir i n) \<Rightarrow> Inr (fs(p \<mapsto> File (new_inode E) True []))))"

definition set_data :: "fs \<Rightarrow> path \<Rightarrow> bytes \<Rightarrow> fs" where
  "set_data fs p b =
     (case fs p of Some (File i r old) \<Rightarrow> fs(p \<mapsto> File i r b) | _ \<Rightarrow> fs)"

text \<open>The bytes of the regular file at a path, for comparing archives.\<close>

definition file_data :: "fs \<Rightarrow> path \<Rightarrow> bytes option" where
  "file_data fs p = (case fs p of Some (File i r b) \<Rightarrow> Some b | _ \<Rightarrow> None)"

text \<open>
  The body of the \<^verbatim>\<open>try\<close> statement of the packaging step:
  \<^verbatim>\<open>with tarfile.open(out_tar, "w:gz") as tar: tar.add(local_nemo_path, arcname="model.nemo", filter=_deterministic_filter)\<close>.
  When \<^verbatim>\<open>tar.add\<close> raises, the \<^verbatim>\<open>with\<close> statement closes the file that was opened and
  the exception goes on; nothing removes the file.
\<close>

definition pack :: "env \<Rightarrow> tarlib \<Rightarrow> fs \<Rightarrow> path \<Rightarrow> path \<Rightarrow> pyexn option \<times> fs" where
  "pack E lib fs local_nemo_path out_tar =
     (case open_w E fs out_tar of
        Inl e \<Rightarrow> (Some e, fs)
      | Inr fs' \<Rightarrow>
          (case tar_add E fs' out_tar local_nemo_path ''model.nemo'' deterministic_filter of
             (exc, members) \<Rightarrow>
               (exc, set_data fs' out_tar
                       (gzip_header (clock E) (gz_fname out_tar)
                        @ tl_gz_stream lib members (exc = None)))))"

subsection \<open>\<^verbatim>\<open>prepare_nemo_artifact\<close>\<close>

text \<open>
  The result is what the call returns or raises, and the file system it leaves. The calls
  to the logger are left out.
\<close>

definition ensure_checkpoint :: "env \<Rightarrow> fs \<Rightarrow> path \<Rightarrow> string \<Rightarrow> exn option \<times> fs" where
  "ensure_checkpoint E fs local_nemo_path model_name =
     (if \<not> path_exists fs local_nemo_path
      then (case nemo_import E of
              Some e \<Rightarrow> (Some (Lib e), fs)
            | None \<Rightarrow>
                (case fetch E model_name local_nemo_path fs of
                   (Some e, fs') \<Rightarrow> (Some (DownloadFailed e), fs')
                 | (None, fs') \<Rightarrow> (None, fs')))
      else (None, fs))"

definition pack_and_verify :: "env \<Rightarrow> tarlib \<Rightarrow> fs \<Rightarrow> path \<Rightarrow> path \<Rightarrow> (exn + path) \<times> fs" where
  "pack_and_verify E lib fs local_nemo_path out_tar =
     (case pack E lib fs local_nemo_path out_tar of
        (Some e, fs') \<Rightarrow> (Inl (TarCreateFailed e), fs')
      | (None, fs') \<Rightarrow>
          (case tar_has_model_nemo lib fs' out_tar of
             Inl e \<Rightarrow> (Inl e, fs')
           | Inr valid \<Rightarrow>
               (if \<not> valid then (Inl VerificationFailed, fs') else (Inr out_tar, fs'))))"

definition prepare_nemo_artifact ::
  "env \<Rightarrow> tarlib \<Rightarrow> fs \<Rightarrow> path \<Rightarrow> string \<Rightarrow> path \<Rightarrow> (exn + path) \<times> fs"
where
  "prepare_nemo_artifact E lib fs local_nemo_path model_name out_tar =
     (if path_exists fs out_tar then (Inr out_tar, fs)
      else case makedirs E fs (dirname local_nemo_path) of
             (Some e, fs1) \<Rightarrow> (Inl (Lib e), fs1)
           | (None, fs1) \<Rightarrow>
               (case makedirs E fs1 (dirname out_tar) of
                  (Some e, fs2) \<Rightarrow> (Inl (Lib e), fs2)
                | (None, fs2) \<Rightarrow>
                    (case ensure_checkpoint E fs2 local_nemo_path model_name of
                       (Some e, fs3) \<Rightarrow> (Inl e, fs3)
                     | (None, fs3) \<Rightarrow>
                         (if \<not> path_exists fs3 local_nemo_path then (Inl MissingNemo, fs3)
                          else (case getsize fs3 local_nemo_path of
                                  Inl e \<Rightarrow> (Inl (Lib e), fs3)
                                | Inr n \<Rightarrow>
                                    (if n \<le> 0 then (Inl MissingNemo, fs3)
                                     else pack_and_verify E lib fs3 local_nemo_path out_tar))))))"

subsection \<open>A stand-in host and tar library for concrete evaluation\<close>

text \<open>
  A host whose download always fails, a checkpoint of three bytes, and a tar library given
  by a table: it writes a member as its bytes, accepts the one archive that packing the
  checkpoint at clock 5 produces, and on the first 15 bytes of that archive (a cut inside
  the gzip header) \<^verbatim>\<open>is_tarfile\<close> raises \<^verbatim>\<open>EOFError\<close>, as CPython 3.11 does for a gzip
  stream that ends before the first tar block. They serve to run the functions on
  concrete inputs; no general statement refers to them.
\<close>

definition host_inode :: inode where
  "host_inode = \<lparr>st_mode = 384, st_uid = 1000, st_gid = 100, st_mtime = 1700000000\<rparr>"

definition other_inode :: inode where
  "other_inode = \<lparr>st_mode = 436, st_uid = 0, st_gid = 0, st_mtime = 1600000000\<rparr>"

definition stub_env :: "32 word \<Rightarrow> env" where
  "stub_env c =
     \<lparr>clock = c,
      pw_name = (\<lambda>u. if u = 1000 then ''alice'' else []),
      gr_name = (\<lambda>g. if g = 100 then ''users'' else []),
      new_inode = host_inode,
      nemo_import = None,
      fetch = (\<lambda>model_name p fs. (Some (OtherError 0), fs)),
      walk = (\<lambda>fs p arcname. (None, []))\<rparr>"

definition nemo_bytes :: bytes where
  "nemo_bytes = [1, 2, 3]"

definition packed_member :: tarinfo where
  "packed_member =
     \<lparr>ti_name = ''model.nemo'', ti_size = 3, ti_mtime = 0, ti_mode = 420, ti_uid = 0, ti_gid = 0,
      ti_uname = [], ti_gname = [], ti_type = REGTYPE\<rparr>"

definition stub_gz_stream :: "(tarinfo \<times> bytes) list \<Rightarrow> bool \<Rightarrow> bytes" where
  "stub_gz_stream ms finished = concat (map snd ms) @ (if finished then [0, 0] else [])"

definition stub_archive :: bytes where
  "stub_archive = gzip_header 5 ''model.tar'' @ stub_gz_stream [(packed_member, nemo_bytes)] True"

definition stub_tarlib :: tarlib where
  "stub_tarlib =
     \<lparr>tl_is_tarfile = (\<lambda>b. if b = stub_archive then Inr True
                            else if b = take 15 stub_archive then Inl EOFError
                            else Inr False),
      tl_members_gz = (\<lambda>b. if b = stub_archive then Inr [packed_member] else Inl ReadError),
      tl_gz_stream = stub_gz_stream\<rparr>"

definition local_path :: path where
  "local_path = [''artifacts'', ''model.nemo'']"

definition out_path :: path where
  "out_path = [''artifacts'', ''model.tar.gz'']"

definition fs_fresh :: "inode \<Rightarrow> bool \<Rightarrow> fs" where
  "fs_fresh i r = [[''artifacts''] \<mapsto> Dir host_inode 4096, local_path \<mapsto> File i r nemo_bytes]"

subsection \<open>Stand-in codecs for concrete evaluation\<close>

text \<open>
  A table of codecs that knows a handful of literal inputs. It is used to run the handler
  on concrete requests only; no general statement refers to it. The five base64 strings
  decode to one-byte payloads, and \<open>stub_sf_read\<close> assigns a decoded audio to each: a
  16 kHz mono clip, an 8 kHz clip, a stereo clip, an empty clip, and bytes that are no audio.
\<close>

definition stub_json_loads :: "string \<Rightarrow> pyexn + json" where
  \<open>stub_json_loads body =
     (if body = ''{"audio_b64": "AQ=="}'' then Inr (JObj [(''audio_b64'', JStr ''AQ=='')])
      else if body = ''{"audio_b64": "Ag=="}'' then Inr (JObj [(''audio_b64'', JStr ''Ag=='')])
      else if body = ''{"audio_b64": "Aw=="}'' then Inr (JObj [(''audio_b64'', JStr ''Aw=='')])
      else if body = ''{"audio_b64": "BA=="}'' then Inr (JObj [(''audio_b64'', JStr ''BA=='')])
      else if body = ''{"audio_b64": "BQ=="}'' then Inr (JObj [(''audio_b64'', JStr ''BQ=='')])
      else if body = ''{"audio_b64": "?"}'' then Inr (JObj [(''audio_b64'', JStr ''?'')])
      else if body = ''{"audio_b64": ""}'' then Inr (JObj [(''audio_b64'', JStr [])])
      else if body = ''{"audio_b64": 5}'' then Inr (JObj [(''audio_b64'', JNum 5)])
      else if body = ''{}'' then Inr (JObj [])
      else if body = ''5'' then Inr (JNum 5)
      else Inl JSONDecodeError)\<close>

definition stub_b64decode :: "string \<Rightarrow> bytes option" where
  "stub_b64decode s =
     (if s = [] then Some []
      else if s = ''AQ=='' then Some [1]
      else if s = ''Ag=='' then Some [2]
      else if s = ''Aw=='' then Some [3]
      else if s = ''BA=='' then Some [4]
      else if s = ''BQ=='' then Some [5]
      else None)"

definition stub_sf_read :: "bytes \<Rightarrow> int audio option" where
  "stub_sf_read b =
     (if b = [1] then Some \<lparr>samplerate = 16000, channels = 1, samples = [3, -2, 7]\<rparr>
      else if b = [2] then Some \<lparr>samplerate = 8000, channels = 1, samples = [3, -2, 7]\<rparr>
      else if b = [3] then Some \<lparr>samplerate = 16000, channels = 2, samples = [3, 3, -2, -2]\<rparr>
      else if b = [4] then Some \<lparr>samplerate = 16000, channels = 1, samples = []\<rparr>
      else None)"

definition stub_codecs :: "int codecs" where
  "stub_codecs = \<lparr>json_loads = stub_json_loads, b64decode = stub_b64decode,
                   sf_read = stub_sf_read, json_dumps = (\<lambda>j. ''{}'')\<rparr>"

section \<open>Properties of the inference handler\<close>

lemmas stub_simps = stub_codecs_def stub_json_loads_def stub_b64decode_def stub_sf_read_def

text \<open>With one channel the first column of the array is the whole array.\<close>

lemma column0_mono: "channels a = 1 \<Longrightarrow> column0 a = samples a"
  by (simp add: column0_def shape0_def map_nth)

lemma input_fn_ct:
  "ct \<noteq> ''application/json'' \<Longrightarrow> input_fn L body ct = Inl (ValueError UnsupportedContentType)"
  by (simp add: input_fn_def)

lemma input_fn_json:
  "json_loads L body = Inl JSONDecodeError \<Longrightarrow>
   input_fn L body ''application/json'' = Inl (ValueError InvalidJSON)"
  by (simp add: input_fn_def)

lemma input_fn_obj:
  "json_loads L body = Inr (JObj kvs) \<Longrightarrow>
   input_fn L body ''application/json'' =
     (case map_of kvs ''audio_b64'' of None \<Rightarrow> Inl (ValueError MissingField) | Some v \<Rightarrow> decode_field L v)"
  by (simp add: input_fn_def split: option.splits)

lemma decode_field_not_str: "\<forall>s. v \<noteq> JStr s \<Longrightarrow> decode_field L v = Inl (ValueError InvalidField)"
  by (cases v) (simp_all add: decode_field_def)

lemma check_audio_ok:
  "samplerate a = 16000 \<Longrightarrow> channels a = 1 \<Longrightarrow> samples a \<noteq> [] \<Longrightarrow> check_audio a = Inr (samples a)"
  by (simp add: check_audio_def SR_REQUIRED_def column0_mono)

lemma check_audio_Inr:
  "check_audio a = Inr xs \<Longrightarrow> samplerate a = 16000 \<and> channels a = 1 \<and> xs = samples a \<and> xs \<noteq> []"
  by (auto simp: check_audio_def SR_REQUIRED_def column0_mono split: if_splits)

lemma decode_field_Inr:
  "decode_field L v = Inr xs \<Longrightarrow>
   \<exists>s w a. v = JStr s \<and> s \<noteq> [] \<and> b64decode L s = Some w \<and> sf_read L w = Some a
       \<and> samplerate a = 16000 \<and> channels a = 1 \<and> xs = samples a \<and> xs \<noteq> []"
  by (cases v) (auto simp: decode_field_def split: if_splits option.splits dest: check_audio_Inr)

lemma input_fn_Inr:
  "input_fn L body ct = Inr xs \<Longrightarrow>
   ct = ''application/json'' \<and>
   (\<exists>payload s w a. json_loads L body = Inr payload \<and> py_in ''audio_b64'' payload = Inr True
       \<and> py_getitem payload ''audio_b64'' = Inr (JStr s) \<and> s \<noteq> []
       \<and> b64decode L s = Some w \<and> sf_read L w = Some a
       \<and> samplerate a = 16000 \<and> channels a = 1 \<and> xs = samples a \<and> xs \<noteq> [])"
  by (auto simp: input_fn_def split: if_splits sum.splits dest!: decode_field_Inr)

text \<open>
  Claim C7. The checks of \<open>input_fn\<close> run in the order content type, JSON parse, field
  present, field a non-empty string, base64, audio container, sample rate, channel count,
  non-empty audio. Each clause below assumes that the earlier checks pass and states the
  error of the first failing one; the nesting of the clauses is the order. The nine errors
  are pairwise different. Nothing is repaired: a request that returns samples has passed
  every check, with a decoded rate of exactly 16000 and exactly one channel, and the
  samples returned are those of the decoder, unchanged and non-empty; every other request
  ends in an exception.
\<close>

theorem input_fn_strict_order:
  "(ct \<noteq> ''application/json'' \<longrightarrow> input_fn L body ct = Inl (ValueError UnsupportedContentType))
   \<and> (json_loads L body = Inl JSONDecodeError \<longrightarrow>
         input_fn L body ''application/json'' = Inl (ValueError InvalidJSON))
   \<and> (json_loads L body = Inr (JObj kvs) \<longrightarrow>
        (map_of kvs ''audio_b64'' = None \<longrightarrow>
           input_fn L body ''application/json'' = Inl (ValueError MissingField))
      \<and> (\<forall>v. map_of kvs ''audio_b64'' = Some v \<and> (\<forall>s. v \<noteq> JStr s) \<longrightarrow>
           input_fn L body ''application/json'' = Inl (ValueError InvalidField))
      \<and> (\<forall>s. map_of kvs ''audio_b64'' = Some (JStr s) \<and> s \<noteq> [] \<longrightarrow>
           (b64decode L s = None \<longrightarrow>
              input_fn L body ''application/json'' = Inl (ValueError InvalidBase64))
         \<and> (\<forall>w. b64decode L s = Some w \<longrightarrow>
              (sf_read L w = None \<longrightarrow>
                 input_fn L body ''application/json'' = Inl (ValueError UndecodableWav))
            \<and> (\<forall>a. sf_read L w = Some a \<longrightarrow>
                 (samplerate a \<noteq> 16000 \<longrightarrow>
                    input_fn L body ''application/json''
                      = Inl (ValueError (SampleRateMismatch 16000 (samplerate a))))
               \<and> (samplerate a = 16000 \<and> channels a \<noteq> 1 \<longrightarrow>
                    input_fn L body ''application/json'' = Inl (ValueError NotMono))
               \<and> (samplerate a = 16000 \<and> channels a = 1 \<and> samples a = [] \<longrightarrow>
                    input_fn L body ''application/json'' = Inl (ValueError EmptyAudio))
               \<and> (samplerate a = 16000 \<and> channels a = 1 \<and> samples a \<noteq> [] \<longrightarrow>
                    input_fn L body ''application/json'' = Inr (samples a))))))
   \<and> (\<forall>xs. input_fn L body ct = Inr xs \<longrightarrow>
         ct = ''application/json'' \<and>
         (\<exists>payload s w a. json_loads L body = Inr payload
             \<and> py_getitem payload ''audio_b64'' = Inr (JStr s) \<and> s \<noteq> []
             \<and> b64decode L s = Some w \<and> sf_read L w = Some a
             \<and> samplerate a = 16000 \<and> channels a = 1 \<and> xs = samples a \<and> xs \<noteq> []))
   \<and> distinct [UnsupportedContentType, InvalidJSON, MissingField, InvalidField, InvalidBase64,
                 UndecodableWav, SampleRateMismatch e g, NotMono, EmptyAudio]"
proof (intro conjI impI allI)
  show "ct \<noteq> ''application/json'' \<Longrightarrow> input_fn L body ct = Inl (ValueError UnsupportedContentType)"
    by (rule input_fn_ct)
  show "json_loads L body = Inl JSONDecodeError \<Longrightarrow>
        input_fn L body ''application/json'' = Inl (ValueError InvalidJSON)"
    by (rule input_fn_json)
  show "distinct [UnsupportedContentType, InvalidJSON, MissingField, InvalidField, InvalidBase64,
                 UndecodableWav, SampleRateMismatch e g, NotMono, EmptyAudio]"
    by simp
  show "\<And>xs. input_fn L body ct = Inr xs \<Longrightarrow> ct = ''application/json''"
    by (drule input_fn_Inr) simp
  show "\<And>xs. input_fn L body ct = Inr xs \<Longrightarrow>
         \<exists>payload s w a. json_loads L body = Inr payload
             \<and> py_getitem payload ''audio_b64'' = Inr (JStr s) \<and> s \<noteq> []
             \<and> b64decode L s = Some w \<and> sf_read L w = Some a
             \<and> samplerate a = 16000 \<and> channels a = 1 \<and> xs = samples a \<and> xs \<noteq> []"
    by (drule input_fn_Inr) blast
qed (auto simp: input_fn_obj decode_field_def check_audio_def SR_REQUIRED_def column0_mono
       split: json.splits)

theorem input_fn_strict_order_witness:
  \<open>input_fn stub_codecs ''{}'' ''text/plain'' = Inl (ValueError UnsupportedContentType)
   \<and> input_fn stub_codecs ''{'' ''application/json'' = Inl (ValueError InvalidJSON)
   \<and> input_fn stub_codecs ''{}'' ''application/json'' = Inl (ValueError MissingField)
   \<and> input_fn stub_codecs ''{"audio_b64": 5}'' ''application/json'' = Inl (ValueError InvalidField)
   \<and> input_fn stub_codecs ''{"audio_b64": "?"}'' ''application/json'' = Inl (ValueError InvalidBase64)
   \<and> input_fn stub_codecs ''{"audio_b64": "BQ=="}'' ''application/json'' = Inl (ValueError UndecodableWav)
   \<and> input_fn stub_codecs ''{"audio_b64": "Ag=="}'' ''application/json'' = Inl (ValueError (SampleRateMismatch 16000 8000))
   \<and> input_fn stub_codecs ''{"audio_b64": "Aw=="}'' ''application/json'' = Inl (ValueError NotMono)
   \<and> input_fn stub_codecs ''{"audio_b64": "BA=="}'' ''application/json'' = Inl (ValueError EmptyAudio)
   \<and> input_fn stub_codecs ''{"audio_b64": "AQ=="}'' ''application/json'' = Inr [3, -2, 7]\<close>
proof -
  have h1: "''text/plain'' \<noteq> ''application/json''"
    by simp
  note c1 = input_fn_strict_order [of "''text/plain''" stub_codecs "''{}''" "[]",
      THEN conjunct1, THEN mp, OF h1]
  have j2: "json_loads stub_codecs ''{'' = Inl JSONDecodeError"
    by (simp add: stub_simps)
  note c2 = input_fn_strict_order [of "''application/json''" stub_codecs "''{''" "[]",
      THEN conjunct2, THEN conjunct1, THEN mp, OF j2]
  have j: \<open>json_loads stub_codecs ''{}'' = Inr (JObj [])\<close>
    by (simp add: stub_simps)
  have c3: \<open>input_fn stub_codecs ''{}'' ''application/json'' = Inl (ValueError MissingField)\<close>
    using input_fn_strict_order [of "''application/json''" stub_codecs \<open>''{}''\<close>
        "[]",
        THEN conjunct2, THEN conjunct2, THEN conjunct1, THEN mp, OF j]
    by simp
  have j: \<open>json_loads stub_codecs ''{"audio_b64": 5}'' = Inr (JObj [(''audio_b64'', JNum 5)])\<close>
    by (simp add: stub_simps)
  have c4: \<open>input_fn stub_codecs ''{"audio_b64": 5}'' ''application/json'' = Inl (ValueError InvalidField)\<close>
    using input_fn_strict_order [of "''application/json''" stub_codecs \<open>''{"audio_b64": 5}''\<close>
        "[(''audio_b64'', JNum 5)]",
        THEN conjunct2, THEN conjunct2, THEN conjunct1, THEN mp, OF j]
    by simp
  have j: \<open>json_loads stub_codecs ''{"audio_b64": "?"}'' = Inr (JObj [(''audio_b64'', JStr ''?'')])\<close>
    by (simp add: stub_simps)
  have b: "b64decode stub_codecs ''?'' = None"
    by (simp add: stub_simps)
  have c5: \<open>input_fn stub_codecs ''{"audio_b64": "?"}'' ''application/json'' = Inl (ValueError InvalidBase64)\<close>
    using input_fn_strict_order [of "''application/json''" stub_codecs \<open>''{"audio_b64": "?"}''\<close>
        "[(''audio_b64'', JStr ''?'')]",
        THEN conjunct2, THEN conjunct2, THEN conjunct1, THEN mp, OF j] b
    by simp
  have j: \<open>json_loads stub_codecs ''{"audio_b64": "BQ=="}'' = Inr (JObj [(''audio_b64'', JStr ''BQ=='')])\<close>
    by (simp add: stub_simps)
  have b: "b64decode stub_codecs ''BQ=='' = Some [5]"
    by (simp add: stub_simps)
  have w: "sf_read stub_codecs [5] = None"
    by (simp add: stub_simps)
  have c6: \<open>input_fn stub_codecs ''{"audio_b64": "BQ=="}'' ''application/json'' = Inl (ValueError UndecodableWav)\<close>
    using input_fn_strict_order [of "''application/json''" stub_codecs \<open>''{"audio_b64": "BQ=="}''\<close>
        "[(''audio_b64'', JStr ''BQ=='')]",
        THEN conjunct2, THEN conjunct2, THEN conjunct1, THEN mp, OF j] b w
    by simp
  have j: \<open>json_loads stub_codecs ''{"audio_b64": "Ag=="}'' = Inr (JObj [(''audio_b64'', JStr ''Ag=='')])\<close>
    by (simp add: stub_simps)
  have b: "b64decode stub_codecs ''Ag=='' = Some [2]"
    by (simp add: stub_simps)
  have w: "sf_read stub_codecs [2] = Some \<lparr>samplerate = 8000, channels = 1, samples = [3, -2, 7]\<rparr>"
    by (simp add: stub_simps)
  have c7: \<open>input_fn stub_codecs ''{"audio_b64": "Ag=="}'' ''application/json'' = Inl (ValueError (SampleRateMismatch 16000 8000))\<close>
    using input_fn_strict_order [of "''application/json''" stub_codecs \<open>''{"audio_b64": "Ag=="}''\<close>
        "[(''audio_b64'', JStr ''Ag=='')]",
        THEN conjunct2, THEN conjunct2, THEN conjunct1, THEN mp, OF j] b w
    by simp
  have j: \<open>json_loads stub_codecs ''{"audio_b64": "Aw=="}'' = Inr (JObj [(''audio_b64'', JStr ''Aw=='')])\<close>
    by (simp add: stub_simps)
  have b: "b64decode stub_codecs ''Aw=='' = Some [3]"
    by (simp add: stub_simps)
  have w: "sf_read stub_codecs [3] = Some \<lparr>samplerate = 16000, channels = 2, samples = [3, 3, -2, -2]\<rparr>"
    by (simp add: stub_simps)
  have c8: \<open>input_fn stub_codecs ''{"audio_b64": "Aw=="}'' ''application/json'' = Inl (ValueError NotMono)\<close>
    using input_fn_strict_order [of "''application/json''" stub_codecs \<open>''{"audio_b64": "Aw=="}''\<close>
        "[(''audio_b64'', JStr ''Aw=='')]",
        THEN conjunct2, THEN conjunct2, THEN conjunct1, THEN mp, OF j] b w
    by simp
  have j: \<open>json_loads stub_codecs ''{"audio_b64": "BA=="}'' = Inr (JObj [(''audio_b64'', JStr ''BA=='')])\<close>
    by (simp add: stub_simps)
  have b: "b64decode stub_codecs ''BA=='' = Some [4]"
    by (simp add: stub_simps)
  have w: "sf_read stub_codecs [4] = Some \<lparr>samplerate = 16000, channels = 1, samples = []\<rparr>"
    by (simp add: stub_simps)
  have c9: \<open>input_fn stub_codecs ''{"audio_b64": "BA=="}'' ''application/json'' = Inl (ValueError EmptyAudio)\<close>
    using input_fn_strict_order [of "''application/json''" stub_codecs \<open>''{"audio_b64": "BA=="}''\<close>
        "[(''audio_b64'', JStr ''BA=='')]",
        THEN conjunct2, THEN conjunct2, THEN conjunct1, THEN mp, OF j] b w
    by simp
  have j: \<open>json_loads stub_codecs ''{"audio_b64": "AQ=="}'' = Inr (JObj [(''audio_b64'', JStr ''AQ=='')])\<close>
    by (simp add: stub_simps)
  have b: "b64decode stub_codecs ''AQ=='' = Some [1]"
    by (simp add: stub_simps)
  have w: "sf_read stub_codecs [1] = Some \<lparr>samplerate = 16000, channels = 1, samples = [3, -2, 7]\<rparr>"
    by (simp add: stub_simps)
  have c10: \<open>input_fn stub_codecs ''{"audio_b64": "AQ=="}'' ''application/json'' = Inr [3, -2, 7]\<close>
    using input_fn_strict_order [of "''application/json''" stub_codecs \<open>''{"audio_b64": "AQ=="}''\<close>
        "[(''audio_b64'', JStr ''AQ=='')]",
        THEN conjunct2, THEN conjunct2, THEN conjunct1, THEN mp, OF j] b w
    by simp
  from c1 c2 c3 c4 c5 c6 c7 c8 c9 c10 show ?thesis
    by blast
qed

text \<open>
  Claim C8. A request of content type JSON whose body is the object
  \<^verbatim>\<open>{"audio_b64": s}\<close>, where \<open>s\<close> is the (non-empty) base64 text of a WAV that decodes to
  \<open>N > 0\<close> samples at 16000 Hz on one channel, is accepted, and the buffer returned is
  one-dimensional with exactly \<open>N\<close> entries: the decoded samples.
\<close>

theorem input_fn_valid_wav:
  assumes "json_loads L body = Inr (JObj [(''audio_b64'', JStr s)])"
      and "s \<noteq> []"
      and "b64decode L s = Some wav"
      and "sf_read L wav = Some a"
      and "samplerate a = 16000" and "channels a = 1"
      and "length (samples a) = N" and "0 < N"
  shows "\<exists>xs. input_fn L body ''application/json'' = Inr xs \<and> length xs = N \<and> xs = samples a"
proof -
  from assms(7,8) have "samples a \<noteq> []" by auto
  with assms show ?thesis
    by (simp add: input_fn_obj decode_field_def check_audio_ok)
qed

theorem input_fn_valid_wav_witness:
  \<open>input_fn stub_codecs ''{"audio_b64": "AQ=="}'' ''application/json'' = Inr [3, -2, 7]\<close>
proof -
  have h1: \<open>json_loads stub_codecs ''{"audio_b64": "AQ=="}'' = Inr (JObj [(''audio_b64'', JStr ''AQ=='')])\<close>
    by (simp add: stub_simps)
  have h2: "b64decode stub_codecs ''AQ=='' = Some [1]"
    by (simp add: stub_simps)
  have h3: "sf_read stub_codecs [1]
              = Some \<lparr>samplerate = 16000, channels = 1, samples = [3, -2, 7]\<rparr>"
    by (simp add: stub_simps)
  from input_fn_valid_wav [OF h1 _ h2 h3, of 3] show ?thesis
    by simp
qed

text \<open>
  Claim C9. For every transcript and every accept type, \<open>output_fn\<close> returns the JSON
  text of the object \<^verbatim>\<open>{"text": pred}\<close>, with the transcript itself as the value, and
  the content type \<^verbatim>\<open>application/json\<close>. The returned pair is the one returned for
  the accept type \<^verbatim>\<open>application/json\<close>; that call logs nothing, any other accept type
  logs exactly one warning.
\<close>

theorem output_fn_json_only:
  "fst (output_fn L pred accept) = (json_dumps L (JObj [(''text'', JStr pred)]), ''application/json'')
   \<and> fst (output_fn L pred accept) = fst (output_fn L pred ''application/json'')
   \<and> snd (output_fn L pred ''application/json'') = []
   \<and> (accept \<noteq> ''application/json'' \<longrightarrow> (\<exists>msg. snd (output_fn L pred accept) = [Warning msg]))"
  by (simp add: output_fn_def)

theorem output_fn_json_only_witness:
  "''text/plain'' \<noteq> ''application/json''
   \<and> fst (output_fn stub_codecs ''hello world'' ''text/plain'')
       = fst (output_fn stub_codecs ''hello world'' ''application/json'')
   \<and> snd (fst (output_fn stub_codecs ''hello world'' ''text/plain'')) = ''application/json''
   \<and> (\<exists>msg. snd (output_fn stub_codecs ''hello world'' ''text/plain'') = [Warning msg])"
proof -
  have h: "''text/plain'' \<noteq> ''application/json''"
    by simp
  from output_fn_json_only [of stub_codecs "''hello world''" "''text/plain''"] h show ?thesis
    by auto
qed

text \<open>
  Claim C10. When the payload is an object whose \<^verbatim>\<open>audio_b64\<close> is the empty string,
  \<open>input_fn\<close> raises the field error, the same error as for a field that is not a string.
  The base64 and audio decoders are not consulted: the outcome is the same under any
  codecs that parse the body alike, also under codecs (as the stand-in ones) that accept
  the empty string as base64.
\<close>

theorem input_fn_empty_field:
  assumes "json_loads L body = Inr (JObj kvs)"
      and "map_of kvs ''audio_b64'' = Some (JStr [])"
  shows "input_fn L body ''application/json'' = Inl (ValueError InvalidField)
         \<and> (\<forall>v. (\<forall>s. v \<noteq> JStr s) \<longrightarrow> decode_field L v = Inl (ValueError InvalidField))
         \<and> (\<forall>L'. json_loads L' = json_loads L \<longrightarrow>
               input_fn L' body ''application/json'' = Inl (ValueError InvalidField))"
  using assms by (auto simp: input_fn_def decode_field_def split: json.splits)

theorem input_fn_empty_field_witness:
  \<open>json_loads stub_codecs ''{"audio_b64": ""}'' = Inr (JObj [(''audio_b64'', JStr [])])
   \<and> map_of [(''audio_b64'', JStr [])] ''audio_b64'' = Some (JStr [])
   \<and> b64decode stub_codecs [] = Some []
   \<and> input_fn stub_codecs ''{"audio_b64": ""}'' ''application/json'' = Inl (ValueError InvalidField)\<close>
proof -
  have h1: \<open>json_loads stub_codecs ''{"audio_b64": ""}'' = Inr (JObj [(''audio_b64'', JStr [])])\<close>
    by (simp add: stub_simps)
  have h2: "map_of [(''audio_b64'', JStr [])] ''audio_b64'' = Some (JStr [])"
    by simp
  have h3: "b64decode stub_codecs [] = Some []"
    by (simp add: stub_simps)
  from input_fn_empty_field [OF h1 h2] h1 h2 h3 show ?thesis
    by blast
qed

section \<open>Properties of the packager\<close>

subsection \<open>The concrete scenario, step by step\<close>

text \<open>
  The stand-in file system holds the directory \<^verbatim>\<open>artifacts\<close> and the checkpoint
  \<^verbatim>\<open>artifacts/model.nemo\<close>, owned by \<open>i\<close> and readable or not; the archive
  \<^verbatim>\<open>artifacts/model.tar.gz\<close> does not exist.
\<close>

lemma paths_simps [simp]:
  "local_path \<noteq> []" "out_path \<noteq> []" "local_path \<noteq> out_path" "out_path \<noteq> local_path"
  "dirname local_path = [''artifacts'']" "dirname out_path = [''artifacts'']"
  "[''artifacts''] \<noteq> local_path" "[''artifacts''] \<noteq> out_path"
  "local_path \<noteq> [''artifacts'']" "out_path \<noteq> [''artifacts'']"
  "gz_fname out_path = ''model.tar''"
  by (simp_all add: local_path_def out_path_def dirname_def gz_fname_def)

lemma fs_fresh_simps [simp]:
  "fs_fresh i r [''artifacts''] = Some (Dir host_inode 4096)"
  "fs_fresh i r local_path = Some (File i r nemo_bytes)"
  "fs_fresh i r out_path = None"
  by (simp_all add: fs_fresh_def)

lemma ev_makedirs: "makedirs E (fs_fresh i r) [''artifacts''] = (None, fs_fresh i r)"
  by (simp add: makedirs_def)

lemma ev_ensure: "ensure_checkpoint E (fs_fresh i r) local_path m = (None, fs_fresh i r)"
  by (simp add: ensure_checkpoint_def path_exists_def)

lemma ev_getsize: "getsize (fs_fresh i r) local_path = Inr 3"
  by (simp add: getsize_def nemo_bytes_def)

lemma ev_open_w:
  "open_w E (fs_fresh i r) out_path = Inr ((fs_fresh i r)(out_path \<mapsto> File (new_inode E) True []))"
  by (simp add: open_w_def)

lemma filter_regular:
  "deterministic_filter (gettarinfo E i arcname sz REGTYPE)
     = \<lparr>ti_name = arcname, ti_size = sz, ti_mtime = 0, ti_mode = 420, ti_uid = 0, ti_gid = 0,
        ti_uname = [], ti_gname = [], ti_type = REGTYPE\<rparr>"
  by (simp add: deterministic_filter_def gettarinfo_def isfile_def isreg_def)

lemma ev_tar_add:
  "tar_add E ((fs_fresh i r)(out_path \<mapsto> nd)) out_path local_path ''model.nemo'' deterministic_filter
     = (if r then (None, [(packed_member, nemo_bytes)]) else (Some PermissionError, []))"
  by (simp add: tar_add_def filter_regular packed_member_def nemo_bytes_def)

lemma ev_pack_ok:
  "pack E lib (fs_fresh i True) local_path out_path
     = (None, (fs_fresh i True)(out_path \<mapsto> File (new_inode E) True
          (gzip_header (clock E) ''model.tar'' @ tl_gz_stream lib [(packed_member, nemo_bytes)] True)))"
  by (simp add: pack_def ev_open_w ev_tar_add set_data_def)

lemma ev_pack_fail:
  "pack E lib (fs_fresh i False) local_path out_path
     = (Some PermissionError, (fs_fresh i False)(out_path \<mapsto> File (new_inode E) True
          (gzip_header (clock E) ''model.tar'' @ tl_gz_stream lib [] False)))"
  by (simp add: pack_def ev_open_w ev_tar_add set_data_def)

lemma ev_prepare_to_pack:
  "prepare_nemo_artifact E lib (fs_fresh i r) local_path m out_path
     = pack_and_verify E lib (fs_fresh i r) local_path out_path"
  by (simp add: prepare_nemo_artifact_def path_exists_def ev_makedirs ev_ensure ev_getsize)

lemma stub_archive_bytes:
  "stub_archive = [31, 139, 8, 8, 5, 0, 0, 0, 2, 255, 109, 111, 100, 101, 108, 46, 116, 97, 114, 0,
                   1, 2, 3, 0, 0]"
  by (simp add: stub_archive_def gzip_header_def write32u_def stub_gz_stream_def nemo_bytes_def)

lemma ev_validate_ok:
  "tar_has_model_nemo stub_tarlib (fs(out_path \<mapsto> File i True stub_archive)) out_path = Inr True"
  by (simp add: tar_has_model_nemo_def path_exists_def is_tarfile_def open_gz_members_def
      stub_tarlib_def getnames_def getmember_def packed_member_def isreg_def)


lemma ev_prepare_ok:
  "prepare_nemo_artifact (stub_env 5) stub_tarlib (fs_fresh i True) local_path
     ''nvidia/parakeet-rnnt-0.6b'' out_path
   = (Inr out_path, (fs_fresh i True)(out_path \<mapsto> File host_inode True stub_archive))"
proof -
  have a: "gzip_header (clock (stub_env 5)) ''model.tar''
             @ tl_gz_stream stub_tarlib [(packed_member, nemo_bytes)] True = stub_archive"
    by (simp add: stub_env_def stub_tarlib_def stub_archive_def)
  have n: "new_inode (stub_env 5) = host_inode"
    by (simp add: stub_env_def)
  show ?thesis
    by (simp add: ev_prepare_to_pack pack_and_verify_def ev_pack_ok a n ev_validate_ok)
qed

text \<open>Another owner, group, mode and modification time of the checkpoint: the same archive.\<close>

lemma ev_pack_other_owner:
  "file_data (snd (pack (stub_env 5) stub_tarlib (fs_fresh other_inode True) local_path out_path)) out_path
   = file_data (snd (pack (stub_env 5) stub_tarlib (fs_fresh host_inode True) local_path out_path)) out_path"
  by (simp add: ev_pack_ok file_data_def)

subsection \<open>The gzip header records the clock\<close>

text \<open>The four bytes of the modification time determine it.\<close>

lemma byte_bits:
  fixes a b :: "32 word"
  assumes "(ucast (drop_bit k a) :: 8 word) = ucast (drop_bit k b)" and "m < 8"
  shows "bit a (k + m) = bit b (k + m)"
proof -
  from assms(1) have "bit (ucast (drop_bit k a) :: 8 word) m = bit (ucast (drop_bit k b) :: 8 word) m"
    by simp
  with assms(2) show ?thesis
    by (simp add: bit_ucast_iff bit_drop_bit_eq)
qed

lemma write32u_inj:
  assumes "write32u a = write32u b"
  shows "a = b"
proof (rule bit_word_eqI)
  fix n
  assume n: "n < LENGTH(32)"
  from assms have e0: "(ucast (drop_bit 0 a) :: 8 word) = ucast (drop_bit 0 b)"
    and e1: "(ucast (drop_bit 8 a) :: 8 word) = ucast (drop_bit 8 b)"
    and e2: "(ucast (drop_bit 16 a) :: 8 word) = ucast (drop_bit 16 b)"
    and e3: "(ucast (drop_bit 24 a) :: 8 word) = ucast (drop_bit 24 b)"
    by (simp_all add: write32u_def)
  from n consider "n < 8" | "8 \<le> n" "n < 16" | "16 \<le> n" "n < 24" | "24 \<le> n" "n < 32"
    by fastforce
  then show "bit a n = bit b n"
  proof cases
    case 1
    with byte_bits [OF e0, of n] show ?thesis by simp
  next
    case 2
    with byte_bits [OF e1, of "n - 8"] show ?thesis by simp
  next
    case 3
    with byte_bits [OF e2, of "n - 16"] show ?thesis by simp
  next
    case 4
    with byte_bits [OF e3, of "n - 24"] show ?thesis by simp
  qed
qed

lemma write32u_append:
  assumes "write32u a @ x = write32u b @ y"
  shows "a = b"
proof -
  have "length (write32u a) = length (write32u b)"
    by (simp add: write32u_def)
  with assms have "write32u a = write32u b"
    by simp
  then show "a = b"
    by (rule write32u_inj)
qed

lemma gzip_header_clock:
  "gzip_header c f @ x = gzip_header c' f @ y \<Longrightarrow> c = c'"
  by (auto simp: gzip_header_def dest: write32u_append)


subsection \<open>What the packaging step writes\<close>

lemma open_w_Inr:
  "open_w E fs p = Inr fs' \<Longrightarrow> \<exists>i r. fs' = fs(p \<mapsto> File i r [])"
  by (auto simp: open_w_def split: if_splits option.splits node.splits)

lemma pack_written:
  assumes "pack E lib fs src out = (exc, fs1)"
  shows "(\<exists>e. exc = Some e \<and> open_w E fs out = Inl e \<and> fs1 = fs)
       \<or> (\<exists>i r ms. fs1 = fs(out \<mapsto> File i r
              (gzip_header (clock E) (gz_fname out) @ tl_gz_stream lib ms (exc = None))))"
proof (cases "open_w E fs out")
  case (Inl e)
  with assms show ?thesis
    by (simp add: pack_def)
next
  case (Inr fs')
  then obtain i r where fs': "fs' = fs(out \<mapsto> File i r [])"
    by (blast dest: open_w_Inr)
  obtain x ms where ta: "tar_add E fs' out src ''model.nemo'' deterministic_filter = (x, ms)"
    by (cases "tar_add E fs' out src ''model.nemo'' deterministic_filter")
  from assms Inr ta fs' show ?thesis
    by (auto simp: pack_def set_data_def)
qed

lemma pack_success_data:
  assumes "pack E lib fs src out = (None, fs1)"
  shows "\<exists>ms. file_data fs1 out
           = Some (gzip_header (clock E) (gz_fname out) @ tl_gz_stream lib ms True)"
  using pack_written [OF assms] by (auto simp: file_data_def)

lemma pack_regular_source:
  assumes "fs src = Some (File i True b)" and "src \<noteq> out" and "open_w E fs out = Inr fs'"
  shows "pack E lib fs src out
     = (None, set_data fs' out (gzip_header (clock E) (gz_fname out)
          @ tl_gz_stream lib
              [(\<lparr>ti_name = ''model.nemo'', ti_size = length b, ti_mtime = 0, ti_mode = 420,
                  ti_uid = 0, ti_gid = 0, ti_uname = [], ti_gname = [], ti_type = REGTYPE\<rparr>, b)]
              True))"
proof -
  from assms(3) obtain j r where "fs' = fs(out \<mapsto> File j r [])"
    by (blast dest: open_w_Inr)
  with assms show ?thesis
    by (simp add: pack_def tar_add_def filter_regular)
qed


text \<open>
  What the filter achieves: with the same clock reading and the same checkpoint bytes, the
  archive is the same whoever owns the checkpoint, whatever its mode and modification time
  and whatever the user and group databases of the host say.
\<close>

lemma pack_same_clock:
  assumes "fs src = Some (File i True b)" and "fs' src = Some (File i' True b)"
      and "src \<noteq> out" and "fs out = None" and "fs' out = None"
      and "fs (dirname out) = fs' (dirname out)"
      and "clock E = clock E'"
  shows "fst (pack E lib fs src out) = fst (pack E' lib fs' src out)
       \<and> file_data (snd (pack E lib fs src out)) out = file_data (snd (pack E' lib fs' src out)) out"
proof (cases "open_w E fs out")
  case (Inl e)
  with assms(4,5,6) have "open_w E' fs' out = Inl e"
    by (auto simp: open_w_def split: if_splits option.splits node.splits)
  with Inl assms(4,5) show ?thesis
    by (simp add: pack_def file_data_def)
next
  case (Inr fs1)
  with assms(4,5,6) obtain fs2 where o2: "open_w E' fs' out = Inr fs2"
    by (auto simp: open_w_def split: if_splits option.splits node.splits)
  from Inr obtain j r where f1: "fs1 = fs(out \<mapsto> File j r [])"
    by (blast dest: open_w_Inr)
  from o2 obtain j' r' where f2: "fs2 = fs'(out \<mapsto> File j' r' [])"
    by (blast dest: open_w_Inr)
  from pack_regular_source [OF assms(1,3) Inr] pack_regular_source [OF assms(2,3) o2] f1 f2 assms(7)
  show ?thesis
    by (simp add: set_data_def file_data_def)
qed


text \<open>
  Claim C1 says that packing the same bytes twice, the destination deleted in between,
  gives byte-identical archives whatever the clock of the host. The code aims at this
  (its filter and the comment above the packaging step say so) and misses it:
  \<^verbatim>\<open>tarfile.open(out_tar, "w:gz")\<close> lets gzip stamp the current time into the header of
  the archive. Two successful runs of the packaging step on the same file system, with the
  same library and paths, on hosts whose clocks differ, write archives with different bytes.
\<close>

theorem pack_depends_on_clock:
  assumes "pack E lib fs src out = (None, fs1)"
      and "pack E' lib fs src out = (None, fs2)"
      and "clock E \<noteq> clock E'"
  shows "file_data fs1 out \<noteq> None \<and> file_data fs2 out \<noteq> None
         \<and> file_data fs1 out \<noteq> file_data fs2 out"
proof -
  from pack_success_data [OF assms(1)] obtain ms where
    d1: "file_data fs1 out = Some (gzip_header (clock E) (gz_fname out) @ tl_gz_stream lib ms True)"
    by blast
  from pack_success_data [OF assms(2)] obtain ms' where
    d2: "file_data fs2 out = Some (gzip_header (clock E') (gz_fname out) @ tl_gz_stream lib ms' True)"
    by blast
  from assms(3) have "gzip_header (clock E) (gz_fname out) @ tl_gz_stream lib ms True
      \<noteq> gzip_header (clock E') (gz_fname out) @ tl_gz_stream lib ms' True"
    by (blast dest: gzip_header_clock)
  with d1 d2 show ?thesis
    by simp
qed

theorem pack_depends_on_clock_witness:
  "file_data (snd (pack (stub_env 5) stub_tarlib (fs_fresh host_inode True) local_path out_path)) out_path
     \<noteq> file_data (snd (pack (stub_env 6) stub_tarlib (fs_fresh host_inode True) local_path out_path)) out_path"
proof -
  have c: "clock (stub_env 5) \<noteq> clock (stub_env 6)"
    by (simp add: stub_env_def)
  from pack_depends_on_clock [where E = "stub_env 5" and E' = "stub_env 6" and lib = stub_tarlib
      and fs = "fs_fresh host_inode True" and src = local_path and out = out_path,
      OF ev_pack_ok ev_pack_ok c]
  show ?thesis
    by (simp add: ev_pack_ok)
qed


subsection \<open>The validator\<close>

text \<open>
  The validator answers \<^verbatim>\<open>True\<close> exactly for a readable regular file that
  \<^verbatim>\<open>is_tarfile\<close> accepts, whose members the gzip reader lists, with a member named
  \<^verbatim>\<open>model.nemo\<close>, the last of that name being a regular file of positive size.
\<close>

lemma validator_iff:
  "tar_has_model_nemo lib fs p = Inr True \<longleftrightarrow>
     p \<noteq> [] \<and>
     (\<exists>i b ms info. fs p = Some (File i True b)
        \<and> tl_is_tarfile lib b = Inr True
        \<and> tl_members_gz lib b = Inr ms
        \<and> ''model.nemo'' \<in> set (getnames ms)
        \<and> getmember ms ''model.nemo'' = Inr info
        \<and> isreg info \<and> 0 < ti_size info)"
  by (auto simp: tar_has_model_nemo_def path_exists_def is_tarfile_def open_gz_members_def
      split: if_splits option.splits node.splits sum.splits)

lemma validator_missing_path:
  "\<not> path_exists fs p \<Longrightarrow> tar_has_model_nemo lib fs p = Inr False"
  by (simp add: tar_has_model_nemo_def)

lemma validator_not_tar:
  "fs p = Some (File i True b) \<Longrightarrow> tl_is_tarfile lib b = Inr False \<Longrightarrow>
   tar_has_model_nemo lib fs p = Inr False"
  by (simp add: tar_has_model_nemo_def path_exists_def is_tarfile_def)

lemma validator_guarded:
  assumes "fs p = Some (File i True b)" and "tl_is_tarfile lib b = Inr True"
  shows "tl_members_gz lib b = Inl e \<Longrightarrow> tar_has_model_nemo lib fs p = Inr False"
    and "tl_members_gz lib b = Inr ms \<Longrightarrow> ''model.nemo'' \<notin> set (getnames ms) \<Longrightarrow>
         tar_has_model_nemo lib fs p = Inr False"
    and "tl_members_gz lib b = Inr ms \<Longrightarrow> getmember ms ''model.nemo'' = Inr info \<Longrightarrow>
         ti_size info = 0 \<Longrightarrow> tar_has_model_nemo lib fs p = Inr False"
    and "tl_members_gz lib b = Inr ms \<Longrightarrow> getmember ms ''model.nemo'' = Inr info \<Longrightarrow>
         \<not> isreg info \<Longrightarrow> tar_has_model_nemo lib fs p = Inr False"
  using assms
  by (auto simp: tar_has_model_nemo_def path_exists_def is_tarfile_def open_gz_members_def)


text \<open>
  Claim C3 says that the validator never lets an exception through, also when the path is
  a directory. The \<^verbatim>\<open>try\<close> statement of the validator shows the intent, but the call
  \<^verbatim>\<open>tarfile.is_tarfile(path)\<close> stands before it: on a path that is a directory that call
  raises \<^verbatim>\<open>IsADirectoryError\<close>, and the validator raises it instead of returning
  \<^verbatim>\<open>False\<close>.
\<close>

theorem validator_raises_on_directory:
  assumes "p \<noteq> []" and "fs p = Some (Dir i n)"
  shows "tar_has_model_nemo lib fs p = Inl (Lib IsADirectoryError)"
  using assms by (simp add: tar_has_model_nemo_def path_exists_def is_tarfile_def)

theorem validator_raises_on_directory_witness:
  "tar_has_model_nemo stub_tarlib (fs_fresh host_inode True) [''artifacts''] = Inl (Lib IsADirectoryError)"
proof -
  have h1: "[''artifacts''] \<noteq> ([] :: path)"
    by simp
  have h2: "fs_fresh host_inode True [''artifacts''] = Some (Dir host_inode 4096)"
    by simp
  from validator_raises_on_directory [where fs = "fs_fresh host_inode True" and p = "[''artifacts'']",
      OF h1 h2]
  show ?thesis .
qed


text \<open>
  Claim C4 says, among other things, that a truncated archive yields \<^verbatim>\<open>False\<close>. Take an
  archive that the validator accepts and cut it to its first \<open>k\<close> bytes. When
  \<^verbatim>\<open>is_tarfile\<close> raises an exception on the cut file (CPython 3.11 raises
  \<^verbatim>\<open>EOFError\<close> when a gzip stream ends before the first tar block), the validator raises
  that exception: the call stands before the \<^verbatim>\<open>try\<close> statement, as for claim C3.
\<close>

theorem validator_raises_on_truncated:
  assumes "p \<noteq> []"
      and "tar_has_model_nemo lib (fs(p \<mapsto> File i True full)) p = Inr True"
      and "k < length full"
      and "tl_is_tarfile lib (take k full) = Inl e"
  shows "tar_has_model_nemo lib (fs(p \<mapsto> File i True (take k full))) p = Inl (Lib e)"
  using assms by (simp add: tar_has_model_nemo_def path_exists_def is_tarfile_def)

theorem validator_raises_on_truncated_witness:
  "tar_has_model_nemo stub_tarlib ((fs_fresh host_inode True)(out_path \<mapsto> File host_inode True stub_archive))
     out_path = Inr True
   \<and> tar_has_model_nemo stub_tarlib
       ((fs_fresh host_inode True)(out_path \<mapsto> File host_inode True (take 15 stub_archive)))
     out_path = Inl (Lib EOFError)"
proof -
  have h1: "out_path \<noteq> []"
    by simp
  have h3: "15 < length stub_archive"
    by (simp add: stub_archive_bytes)
  have h4: "tl_is_tarfile stub_tarlib (take 15 stub_archive) = Inl EOFError"
    by (simp add: stub_tarlib_def stub_archive_bytes)
  from validator_raises_on_truncated [where p = out_path and fs = "fs_fresh host_inode True"
      and full = stub_archive and i = host_inode, OF h1 ev_validate_ok h3 h4] ev_validate_ok
  show ?thesis
    by simp
qed


subsection \<open>\<^verbatim>\<open>prepare_nemo_artifact\<close>\<close>

text \<open>
  Claim C6. When the output archive path exists, \<open>prepare_nemo_artifact\<close> returns that
  path and leaves the file system as it is, for every host and every tar library: the
  result involves neither the validator, nor the download, nor the packaging step.
\<close>

theorem prepare_existing_archive:
  assumes "path_exists fs out_tar"
  shows "prepare_nemo_artifact E lib fs local_nemo_path model_name out_tar = (Inr out_tar, fs)"
  using assms by (simp add: prepare_nemo_artifact_def)

theorem prepare_existing_archive_witness:
  "prepare_nemo_artifact (stub_env 5) stub_tarlib [out_path \<mapsto> File host_inode True []]
     local_path ''nvidia/parakeet-rnnt-0.6b'' out_path
   = (Inr out_path, [out_path \<mapsto> File host_inode True []])"
proof -
  have h: "path_exists [out_path \<mapsto> File host_inode True []] out_path"
    by (simp add: path_exists_def)
  from prepare_existing_archive [where fs = "[out_path \<mapsto> File host_inode True []]"
      and out_tar = out_path, OF h]
  show ?thesis .
qed


text \<open>A path returned after packaging has passed the validator.\<close>

lemma pack_and_verify_Inr:
  "pack_and_verify E lib fs src out = (Inr p, fs') \<Longrightarrow>
   p = out \<and> tar_has_model_nemo lib fs' out = Inr True"
  by (auto simp: pack_and_verify_def split: prod.splits option.splits sum.splits if_splits)

lemma prepare_fresh_validated:
  assumes "\<not> path_exists fs out"
      and "prepare_nemo_artifact E lib fs src m out = (Inr p, fs')"
  shows "p = out \<and> tar_has_model_nemo lib fs' out = Inr True"
  using assms
  by (auto simp: prepare_nemo_artifact_def
      split: prod.splits option.splits sum.splits if_splits dest: pack_and_verify_Inr)


text \<open>
  Claim C2 says that every path returned refers to an archive that passes the validator,
  also on the return taken when the archive already exists. The module's own documentation
  promises to validate an existing archive before skipping; the code returns it unchecked.
  When the output path is a regular file that \<^verbatim>\<open>is_tarfile\<close> rejects (an empty file, for
  one), \<open>prepare_nemo_artifact\<close> returns the path although the validator answers
  \<^verbatim>\<open>False\<close> on it.
\<close>

theorem prepare_returns_unvalidated:
  assumes "out_tar \<noteq> []"
      and "fs out_tar = Some (File i True b)"
      and "tl_is_tarfile lib b = Inr False"
  shows "prepare_nemo_artifact E lib fs local_nemo_path model_name out_tar = (Inr out_tar, fs)
       \<and> tar_has_model_nemo lib fs out_tar = Inr False"
  using assms
  by (simp add: prepare_nemo_artifact_def path_exists_def validator_not_tar)

theorem prepare_returns_unvalidated_witness:
  "prepare_nemo_artifact (stub_env 5) stub_tarlib [out_path \<mapsto> File host_inode True []]
     local_path ''nvidia/parakeet-rnnt-0.6b'' out_path
     = (Inr out_path, [out_path \<mapsto> File host_inode True []])
   \<and> tar_has_model_nemo stub_tarlib [out_path \<mapsto> File host_inode True []] out_path = Inr False"
proof -
  have h1: "out_path \<noteq> []"
    by simp
  have h2: "[out_path \<mapsto> File host_inode True []] out_path = Some (File host_inode True [])"
    by simp
  have h3: "tl_is_tarfile stub_tarlib [] = Inr False"
    by (simp add: stub_tarlib_def stub_archive_bytes)
  from prepare_returns_unvalidated [where fs = "[out_path \<mapsto> File host_inode True []]"
      and out_tar = out_path, OF h1 h2 h3]
  show ?thesis .
qed


text \<open>The run on the unreadable checkpoint.\<close>

lemma ev_prepare_fail:
  "prepare_nemo_artifact (stub_env 5) stub_tarlib (fs_fresh host_inode False) local_path
     ''nvidia/parakeet-rnnt-0.6b'' out_path
   = (Inl (TarCreateFailed PermissionError),
      (fs_fresh host_inode False)(out_path \<mapsto> File host_inode True (gzip_header 5 ''model.tar'')))"
  by (simp add: ev_prepare_to_pack pack_and_verify_def ev_pack_fail)
     (simp add: stub_env_def stub_tarlib_def stub_gz_stream_def)

text \<open>The packaging error is raised by a failed packaging step only.\<close>

lemma pack_and_verify_pack_failed:
  "pack_and_verify E lib fs src out = (Inl (TarCreateFailed e), fs') \<Longrightarrow>
   pack E lib fs src out = (Some e, fs')"
  by (auto simp: pack_and_verify_def tar_has_model_nemo_def
      split: prod.splits option.splits sum.splits if_splits)

lemma prepare_pack_failed:
  assumes "prepare_nemo_artifact E lib fs src m out = (Inl (TarCreateFailed e), fs')"
  shows "\<not> path_exists fs out \<and> (\<exists>fs3. pack E lib fs3 src out = (Some e, fs'))"
  using assms
  by (auto simp: prepare_nemo_artifact_def ensure_checkpoint_def
      split: prod.splits option.splits sum.splits if_splits dest: pack_and_verify_pack_failed)


text \<open>
  Claim C5, as amended. When \<open>prepare_nemo_artifact\<close> fails with the packaging error, the
  output path did not exist before the call and no path is returned. Either the
  destination could not be opened, and the packaging step changed nothing; or it was
  opened, and the file written up to the failure stays at the output path: the gzip header
  and the stream of an archive closed without its end-of-archive blocks. The code has no
  temporary file, rename or removal.
\<close>

theorem prepare_pack_failure_leaves_file:
  assumes "prepare_nemo_artifact E lib fs local_nemo_path model_name out_tar
             = (Inl (TarCreateFailed e), fs')"
  shows "\<not> path_exists fs out_tar \<and>
         (\<exists>fs3. pack E lib fs3 local_nemo_path out_tar = (Some e, fs') \<and>
            ((open_w E fs3 out_tar = Inl e \<and> fs' = fs3)
             \<or> (\<exists>i r ms. fs' = fs3(out_tar \<mapsto> File i r
                    (gzip_header (clock E) (gz_fname out_tar) @ tl_gz_stream lib ms False)))))"
proof -
  from prepare_pack_failed [OF assms] obtain fs3 where
    ne: "\<not> path_exists fs out_tar" and p: "pack E lib fs3 local_nemo_path out_tar = (Some e, fs')"
    by blast
  from pack_written [OF p] have
    "(open_w E fs3 out_tar = Inl e \<and> fs' = fs3)
     \<or> (\<exists>i r ms. fs' = fs3(out_tar \<mapsto> File i r
            (gzip_header (clock E) (gz_fname out_tar) @ tl_gz_stream lib ms False)))"
    by auto
  with ne p show ?thesis
    by blast
qed

theorem prepare_pack_failure_leaves_file_witness:
  "\<not> path_exists (fs_fresh host_inode False) out_path
   \<and> (\<exists>fs3. pack (stub_env 5) stub_tarlib fs3 local_path out_path
               = (Some PermissionError,
                  (fs_fresh host_inode False)(out_path \<mapsto> File host_inode True (gzip_header 5 ''model.tar''))))"
  using prepare_pack_failure_leaves_file [OF ev_prepare_fail]
  by blast


text \<open>
  Claim C5 as stated fails: with a checkpoint that exists but cannot be read,
  \<^verbatim>\<open>tar.add\<close> raises \<^verbatim>\<open>PermissionError\<close> after the destination was created. The call
  fails with the packaging error and the output path, absent before, now holds a file of
  twenty bytes, the gzip header.
\<close>

theorem pack_failure_leaves_partial_file:
  "fst (prepare_nemo_artifact (stub_env 5) stub_tarlib (fs_fresh host_inode False) local_path
          ''nvidia/parakeet-rnnt-0.6b'' out_path) = Inl (TarCreateFailed PermissionError)
   \<and> fs_fresh host_inode False out_path = None
   \<and> snd (prepare_nemo_artifact (stub_env 5) stub_tarlib (fs_fresh host_inode False) local_path
          ''nvidia/parakeet-rnnt-0.6b'' out_path) out_path
       = Some (File host_inode True [31, 139, 8, 8, 5, 0, 0, 0, 2, 255,
                                     109, 111, 100, 101, 108, 46, 116, 97, 114, 0])"
  by (simp add: ev_prepare_fail) (simp add: gzip_header_def write32u_def)

end
